theory Spec2Isabelle
  imports Main "HOL-Library.Word"
begin

section \<open>ASN Lookup: a shallow embedding of asn\_lookup.py\<close>

text \<open>
  The module has two functions, \<open>get_ip_from_input\<close> and \<open>asn_lookup\<close>, and a
  command-line block that calls them and prints the fields of the answer. Everything
  they do goes through collaborators that are not part of the repository: the socket
  module (\<open>inet_aton\<close>, \<open>gethostbyname\<close>), the ipwhois library (\<open>IPWhois\<close>,
  \<open>lookup_rdap\<close>) and the built-ins \<open>input\<close>, \<open>print\<close> and \<open>str\<close>. The
  collaborators are the fields of a record; each of the module's functions takes that
  record and returns what it returns or raises together with the list of the
  collaborator calls and the lines printed, in order.
\<close>

subsection \<open>Exceptions\<close>

text \<open>
  The \<open>except\<close> clauses of the module select by class, so the model keeps the class
  of every exception: the four classes the module names, and one constructor each for
  the exceptions that only the catch-all clause, or no clause, matches.
  \<open>socket.error\<close> is \<open>OSError\<close>, \<open>socket.gaierror\<close> derives from it, and
  \<open>IPDefinedError\<close> derives from \<open>Exception\<close>.
\<close>

datatype exc_class =
    BaseException     \<comment> \<open>a class outside Exception: KeyboardInterrupt, SystemExit\<close>
  | Exception         \<comment> \<open>any class under Exception that is none of the ones below\<close>
  | OSError           \<comment> \<open>OSError (socket.error) other than gaierror\<close>
  | gaierror
  | IPDefinedError
  | KeyError
  | TypeError
  | AttributeError

text \<open>An exception is its class and the text \<open>str(e)\<close> gives.\<close>

datatype exception = Raised exc_class string

fun cls :: "exception \<Rightarrow> exc_class" where
  "cls (Raised c m) = c"

fun str_exc :: "exception \<Rightarrow> string" where
  "str_exc (Raised c m) = m"

text \<open>\<open>issubclass c d\<close>: a clause \<open>except d\<close> catches an exception of class \<open>c\<close>.\<close>

fun issubclass :: "exc_class \<Rightarrow> exc_class \<Rightarrow> bool" where
  "issubclass c BaseException = True"
| "issubclass c Exception = (c \<noteq> BaseException)"
| "issubclass c OSError = (c = OSError \<or> c = gaierror)"
| "issubclass c d = (c = d)"

subsection \<open>Python values\<close>

text \<open>
  The answer of \<open>lookup_rdap\<close> is a dictionary of strings, \<open>None\<close>, lists and
  nested dictionaries. Keys are strings; a dictionary is an association list read
  from the front.
\<close>

datatype pyval =
    PNone
  | PBool bool
  | PInt int
  | PStr string
  | PList "pyval list"
  | PDict "(string \<times> pyval) list"

text \<open>Truth value testing, as \<open>if x:\<close> does it.\<close>

fun truthy :: "pyval \<Rightarrow> bool" where
  "truthy PNone = False"
| "truthy (PBool b) = b"
| "truthy (PInt i) = (i \<noteq> 0)"
| "truthy (PStr s) = (s \<noteq> [])"
| "truthy (PList xs) = (xs \<noteq> [])"
| "truthy (PDict kvs) = (kvs \<noteq> [])"

text \<open>The same test on a value that is a string or \<open>None\<close>, and on a flag or \<open>None\<close>.\<close>

fun truthy_str :: "string option \<Rightarrow> bool" where
  "truthy_str None = False"
| "truthy_str (Some s) = (s \<noteq> [])"

fun truthy_flag :: "bool option \<Rightarrow> bool" where
  "truthy_flag None = False"
| "truthy_flag (Some b) = b"

text \<open>\<open>d[key]\<close>: KeyError on a dictionary without the key, TypeError on any other value.\<close>

fun subscript :: "pyval \<Rightarrow> string \<Rightarrow> exc_class + pyval" where
  "subscript (PDict kvs) key =
     (case map_of kvs key of None \<Rightarrow> Inl KeyError | Some v \<Rightarrow> Inr v)"
| "subscript v key = Inl TypeError"

text \<open>\<open>d.get(key, default)\<close>: only a dictionary has the method.\<close>

fun dict_get :: "pyval \<Rightarrow> string \<Rightarrow> pyval \<Rightarrow> exc_class + pyval" where
  "dict_get (PDict kvs) key dflt =
     (case map_of kvs key of None \<Rightarrow> Inr dflt | Some v \<Rightarrow> Inr v)"
| "dict_get v key dflt = Inl AttributeError"

text \<open>
  What \<open>for x in v\<close> runs through: the items of a list, the keys of a dictionary, the
  characters of a string; TypeError on a number, a flag or \<open>None\<close>.
\<close>

fun iterate :: "pyval \<Rightarrow> exc_class + pyval list" where
  "iterate (PList xs) = Inr xs"
| "iterate (PDict kvs) = Inr (map (\<lambda>kv. PStr (fst kv)) kvs)"
| "iterate (PStr s) = Inr (map (\<lambda>c. PStr [c]) s)"
| "iterate v = Inl TypeError"

subsection \<open>Collaborators, events and runs\<close>

datatype event =
    Call_input string                 \<comment> \<open>\<open>input(prompt)\<close>\<close>
  | Call_inet_aton string             \<comment> \<open>\<open>socket.inet_aton(s)\<close>\<close>
  | Call_gethostbyname string         \<comment> \<open>\<open>socket.gethostbyname(s)\<close>\<close>
  | Call_IPWhois string               \<comment> \<open>\<open>IPWhois(ip)\<close>\<close>
  | Call_lookup_rdap "string list"    \<comment> \<open>\<open>obj.lookup_rdap(asn_methods=...)\<close>\<close>
  | Call_lookup_whois                 \<comment> \<open>\<open>obj.lookup_whois()\<close>, which the module never calls\<close>
  | Print string                      \<comment> \<open>\<open>print(line)\<close>\<close>

record 'obj world =
  input :: "string \<Rightarrow> exception + string"
  inet_aton :: "string \<Rightarrow> exception + 32 word"
  gethostbyname :: "string \<Rightarrow> exception + string"
  IPWhois :: "string \<Rightarrow> exception + 'obj"
  lookup_rdap :: "'obj \<Rightarrow> string list \<Rightarrow> exception + pyval"
  builtin_str :: "pyval \<Rightarrow> string"

text \<open>
  A run of a function: the events it caused, oldest first, and how it ended, \<open>Inr\<close>
  the value returned or \<open>Inl\<close> the exception that left it.
\<close>

record ('e, 'a) run =
  trace :: "event list"
  returned :: "'e + 'a"

subsection \<open>get\_ip\_from\_input\<close>

text \<open>
  \<^verbatim>\<open>
  def get_ip_from_input(user_input):
      try:
          socket.inet_aton(user_input)
          return user_input, False
      except socket.error:
          try:
              ip_address = socket.gethostbyname(user_input)
              return ip_address, True
          except socket.gaierror:
              print("Invalid input: neither a valid IP address nor a resolvable domain.")
              return None, None
  \<close>
  An exception of \<open>inet_aton\<close> outside \<open>socket.error\<close>, and one of
  \<open>gethostbyname\<close> outside \<open>socket.gaierror\<close>, leaves the function.
\<close>

definition get_ip_from_input ::
  "'obj world \<Rightarrow> string \<Rightarrow> (exception, string option \<times> bool option) run" where
  "get_ip_from_input w user_input =
     (case inet_aton w user_input of
        Inr packed \<Rightarrow>
          \<lparr>trace = [Call_inet_aton user_input],
           returned = Inr (Some user_input, Some False)\<rparr>
      | Inl e \<Rightarrow>
          if issubclass (cls e) OSError then
            (case gethostbyname w user_input of
               Inr ip_address \<Rightarrow>
                 \<lparr>trace = [Call_inet_aton user_input, Call_gethostbyname user_input],
                  returned = Inr (Some ip_address, Some True)\<rparr>
             | Inl e' \<Rightarrow>
                 if issubclass (cls e') gaierror then
                   \<lparr>trace = [Call_inet_aton user_input, Call_gethostbyname user_input,
                       Print ''Invalid input: neither a valid IP address nor a resolvable domain.''],
                    returned = Inr (None, None)\<rparr>
                 else
                   \<lparr>trace = [Call_inet_aton user_input, Call_gethostbyname user_input],
                    returned = Inl e'\<rparr>)
          else
            \<lparr>trace = [Call_inet_aton user_input], returned = Inl e\<rparr>)"

subsection \<open>asn\_lookup\<close>

text \<open>
  \<^verbatim>\<open>
  def asn_lookup(ip):
      try:
          obj = IPWhois(ip)
          res = obj.lookup_rdap(asn_methods=["whois"])
          return res
      except IPDefinedError as e:
          print(f"Error: {e}")
      except Exception as e:
          print(f"ASN lookup failed: {e}")
      return None
  \<close>
  The body of the \<open>try\<close> makes two calls, and either may raise.
\<close>

definition try_body :: "'obj world \<Rightarrow> string \<Rightarrow> (exception, pyval) run" where
  "try_body w ip =
     (case IPWhois w ip of
        Inl e \<Rightarrow> \<lparr>trace = [Call_IPWhois ip], returned = Inl e\<rparr>
      | Inr obj \<Rightarrow>
          \<lparr>trace = [Call_IPWhois ip, Call_lookup_rdap [''whois'']],
           returned = lookup_rdap w obj [''whois'']\<rparr>)"

definition asn_lookup :: "'obj world \<Rightarrow> string \<Rightarrow> (exception, pyval) run" where
  "asn_lookup w ip =
     (let body = try_body w ip in
      case returned body of
        Inr res \<Rightarrow> \<lparr>trace = trace body, returned = Inr res\<rparr>
      | Inl e \<Rightarrow>
          if issubclass (cls e) IPDefinedError then
            \<lparr>trace = trace body @ [Print (''Error: '' @ str_exc e)], returned = Inr PNone\<rparr>
          else if issubclass (cls e) Exception then
            \<lparr>trace = trace body @ [Print (''ASN lookup failed: '' @ str_exc e)],
             returned = Inr PNone\<rparr>
          else
            \<lparr>trace = trace body, returned = Inl e\<rparr>)"

subsection \<open>The command-line block\<close>

text \<open>
  The block under \<open>if __name__ == "__main__"\<close> has no handler of its own, so of an
  exception that leaves it only the class is kept. \<open>then_run\<close> is sequencing: the
  second step runs when the first returned, after it; \<open>seq_runs\<close> runs statements in
  order.
\<close>

definition then_run :: "('e, 'a) run \<Rightarrow> ('a \<Rightarrow> ('e, 'b) run) \<Rightarrow> ('e, 'b) run" where
  "then_run m f =
     (case returned m of
        Inl e \<Rightarrow> \<lparr>trace = trace m, returned = Inl e\<rparr>
      | Inr x \<Rightarrow> \<lparr>trace = trace m @ trace (f x), returned = returned (f x)\<rparr>)"

definition expr :: "'e + 'a \<Rightarrow> ('e, 'a) run" where
  "expr x = \<lparr>trace = [], returned = x\<rparr>"

definition skip :: "('e, unit) run" where
  "skip = \<lparr>trace = [], returned = Inr ()\<rparr>"

fun seq_runs :: "('e, unit) run list \<Rightarrow> ('e, unit) run" where
  "seq_runs [] = skip"
| "seq_runs (m # ms) = then_run m (\<lambda>u. seq_runs ms)"

definition print :: "string \<Rightarrow> ('e, unit) run" where
  "print line = \<lparr>trace = [Print line], returned = Inr ()\<rparr>"

definition uncaught :: "(exception, 'a) run \<Rightarrow> (exc_class, 'a) run" where
  "uncaught m =
     \<lparr>trace = trace m,
      returned = (case returned m of Inl e \<Rightarrow> Inl (cls e) | Inr x \<Rightarrow> Inr x)\<rparr>"

text \<open>
  A replacement field \<open>{v}\<close> of an f-string: a string stands for itself, any other
  value is rendered by the built-in \<open>str\<close>.
\<close>

definition format_value :: "'obj world \<Rightarrow> pyval \<Rightarrow> string" where
  "format_value w v = (case v of PStr s \<Rightarrow> s | _ \<Rightarrow> builtin_str w v)"

text \<open>\<open>print(f"<label>{asn_info['<key>']}")\<close>\<close>

definition print_item :: "'obj world \<Rightarrow> string \<Rightarrow> pyval \<Rightarrow> string \<Rightarrow> (exc_class, unit) run" where
  "print_item w label d key =
     then_run (expr (subscript d key)) (\<lambda>v. print (label @ format_value w v))"

text \<open>\<open>print(f"<label>{d.get('<key>', 'N/A')}")\<close>\<close>

definition print_get :: "'obj world \<Rightarrow> string \<Rightarrow> pyval \<Rightarrow> string \<Rightarrow> (exc_class, unit) run" where
  "print_get w label d key =
     then_run (expr (dict_get d key (PStr ''N/A''))) (\<lambda>v. print (label @ format_value w v))"

text \<open>
  \<^verbatim>\<open>
  network_info = asn_info.get('network', {})
  if network_info:
      print("\nNetwork Details:")
      print(f"Network Name: {network_info.get('name', 'N/A')}")
      ... start_address, end_address, country, type, description
  \<close>
\<close>

definition network_details :: "'obj world \<Rightarrow> pyval \<Rightarrow> (exc_class, unit) run" where
  "network_details w asn_info =
     then_run (expr (dict_get asn_info ''network'' (PDict []))) (\<lambda>network_info.
       if truthy network_info then
         seq_runs
           [print (CHR 0x0A # ''Network Details:''),
            print_get w ''Network Name: '' network_info ''name'',
            print_get w ''Network Start IP: '' network_info ''start_address'',
            print_get w ''Network End IP: '' network_info ''end_address'',
            print_get w ''Network Country: '' network_info ''country'',
            print_get w ''Network Type: '' network_info ''type'',
            print_get w ''Network Description: '' network_info ''description'']
       else skip)"

text \<open>
  \<^verbatim>\<open>
  events = asn_info.get('events', [])
  if events:
      print("\nEvent History:")
      for event in events:
          print(f"Event: {event.get('event_action', 'N/A')}, Date: {event.get('event_date', 'N/A')}")
  \<close>
\<close>

definition print_event :: "'obj world \<Rightarrow> pyval \<Rightarrow> (exc_class, unit) run" where
  "print_event w event =
     then_run (expr (dict_get event ''event_action'' (PStr ''N/A''))) (\<lambda>action.
     then_run (expr (dict_get event ''event_date'' (PStr ''N/A''))) (\<lambda>date.
       print (''Event: '' @ format_value w action @ '', Date: '' @ format_value w date)))"

definition event_history :: "'obj world \<Rightarrow> pyval \<Rightarrow> (exc_class, unit) run" where
  "event_history w asn_info =
     then_run (expr (dict_get asn_info ''events'' (PList []))) (\<lambda>events.
       if truthy events then
         then_run (print (CHR 0x0A # ''Event History:'')) (\<lambda>u.
         then_run (expr (iterate events)) (\<lambda>items.
           seq_runs (map (print_event w) items)))
       else skip)"

text \<open>Lines 101 to 126: what is printed for an answer that passed \<open>if asn_info:\<close>.\<close>

definition present :: "'obj world \<Rightarrow> string \<Rightarrow> pyval \<Rightarrow> (exc_class, unit) run" where
  "present w ip_address asn_info =
     seq_runs
       [print (''ASN Information for '' @ ip_address @ '':''),
        print [],
        print_item w ''ASN: '' asn_info ''asn'',
        print_item w ''ASN CIDR: '' asn_info ''asn_cidr'',
        print_item w ''ASN Country Code: '' asn_info ''asn_country_code'',
        print_item w ''ASN Registry: '' asn_info ''asn_registry'',
        print_item w ''ASN Description: '' asn_info ''asn_description'',
        print_item w ''ASN Allocation Date: '' asn_info ''asn_date'',
        network_details w asn_info,
        event_history w asn_info]"

definition prompt :: string where
  "prompt = ''Please enter an IP address or domain name for ASN lookup: ''"

definition call_input :: "'obj world \<Rightarrow> string \<Rightarrow> (exception, string) run" where
  "call_input w p = \<lparr>trace = [Call_input p], returned = input w p\<rparr>"

definition main :: "'obj world \<Rightarrow> (exc_class, unit) run" where
  "main w =
     then_run (uncaught (call_input w prompt)) (\<lambda>user_input.
     then_run (uncaught (get_ip_from_input w user_input)) (\<lambda>(ip_address, is_domain).
       case ip_address of
         None \<Rightarrow> print ''Could not perform ASN lookup due to invalid input.''
       | Some ip \<Rightarrow>
           if truthy_str ip_address then
             then_run
               (if truthy_flag is_domain then
                  seq_runs
                    [print [], print (''IP address for '' @ user_input @ '' is '' @ ip), print []]
                else skip) (\<lambda>u.
             then_run (uncaught (asn_lookup w ip)) (\<lambda>asn_info.
               if truthy asn_info then present w ip asn_info else skip))
           else print ''Could not perform ASN lookup due to invalid input.''))"

subsection \<open>The outcome types of the specification\<close>

text \<open>
  The specification speaks of a \<open>ResolutionResult\<close> with a field \<open>valid\<close>. The
  function returns a pair; what the caller tests is the truth value of its first
  component (\<open>if ip_address:\<close>), and that is \<open>valid\<close> here.
\<close>

record ResolutionResult =
  address :: "string option"
  sourceWasHostname :: "bool option"
  valid :: bool

definition resolution_result :: "string option \<times> bool option \<Rightarrow> ResolutionResult" where
  "resolution_result r =
     \<lparr>address = fst r, sourceWasHostname = snd r, valid = truthy_str (fst r)\<rparr>"

text \<open>
  The specification's \<open>LookupOutcome\<close>. The module has no such type: \<open>asn_lookup\<close>
  returns the answer or \<open>None\<close>.
\<close>

datatype ErrorKind = InvalidInput | ReservedAddress | LookupError

datatype LookupOutcome = Success pyval | Failure ErrorKind string

text \<open>The registry queries of a run: the calls of a lookup method of an \<open>IPWhois\<close> object.\<close>

fun is_registry_query :: "event \<Rightarrow> bool" where
  "is_registry_query (Call_lookup_rdap methods) = True"
| "is_registry_query Call_lookup_whois = True"
| "is_registry_query ev = False"

definition registry_queries :: "('e, 'a) run \<Rightarrow> event list" where
  "registry_queries r = filter is_registry_query (trace r)"

text \<open>The lines a run printed, in order.\<close>

fun printed_line :: "event \<Rightarrow> string option" where
  "printed_line (Print line) = Some line"
| "printed_line ev = None"

definition printed :: "('e, 'a) run \<Rightarrow> string list" where
  "printed r = List.map_filter printed_line (trace r)"

text \<open>
  What \<open>d.get(key, 'N/A')\<close> evaluates to on a dictionary \<open>d\<close>, and the line the loop
  over the events prints for an event that is a dictionary.
\<close>

fun is_dict :: "pyval \<Rightarrow> bool" where
  "is_dict (PDict kvs) = True"
| "is_dict v = False"

definition get_or_NA :: "pyval \<Rightarrow> string \<Rightarrow> pyval" where
  "get_or_NA d key = (case dict_get d key (PStr ''N/A'') of Inr v \<Rightarrow> v | Inl e \<Rightarrow> PStr ''N/A'')"

definition event_line :: "'obj world \<Rightarrow> pyval \<Rightarrow> string" where
  "event_line w event =
     ''Event: '' @ format_value w (get_or_NA event ''event_action'')
       @ '', Date: '' @ format_value w (get_or_NA event ''event_date'')"

subsection \<open>Worlds used as examples\<close>

definition example_answer :: pyval where
  "example_answer =
     PDict [(''asn'', PStr ''15169''), (''asn_cidr'', PStr ''8.8.8.0/24''),
            (''asn_country_code'', PStr ''US''), (''asn_registry'', PStr ''arin''),
            (''asn_description'', PStr ''GOOGLE, US''), (''asn_date'', PStr ''1992-12-01''),
            (''network'', PDict [(''name'', PStr ''LVLT-GOGL-8-8-8'')])]"

definition example_world :: "unit world" where
  "example_world =
     \<lparr>input = (\<lambda>p. Inr ''8.8.8.8''),
      inet_aton = (\<lambda>s. Inr 0x08080808),
      gethostbyname = (\<lambda>s. Inl (Raised gaierror ''[Errno -2] Name or service not known'')),
      IPWhois = (\<lambda>ip. Inr ()),
      lookup_rdap = (\<lambda>obj methods. Inr example_answer),
      builtin_str = (\<lambda>v. ''?'')\<rparr>"

text \<open>A world whose \<open>IPWhois(ip)\<close> raises the given exception.\<close>

definition refusing_world :: "exception \<Rightarrow> unit world" where
  "refusing_world e = example_world\<lparr>IPWhois := (\<lambda>ip. Inl e)\<rparr>"

text \<open>A world whose \<open>lookup_rdap\<close> raises the given exception.\<close>

definition failing_world :: "exception \<Rightarrow> unit world" where
  "failing_world e = example_world\<lparr>lookup_rdap := (\<lambda>obj methods. Inl e)\<rparr>"

text \<open>An answer without the \<open>network\<close> key, and the answer of the specification's
  example, whose events are not in the order of their dates.\<close>

definition answer_without_network :: pyval where
  "answer_without_network =
     PDict [(''asn'', PStr ''15169''), (''asn_cidr'', PStr ''8.8.8.0/24''),
            (''asn_country_code'', PStr ''US''), (''asn_registry'', PStr ''arin''),
            (''asn_description'', PStr ''GOOGLE, US''), (''asn_date'', PStr ''1992-12-01'')]"

definition example_events :: "pyval list" where
  "example_events =
     [PDict [(''event_action'', PStr ''last changed''), (''event_date'', PStr ''2020-01-01'')],
      PDict [(''event_action'', PStr ''registration''), (''event_date'', PStr ''2015-05-05'')]]"

definition answer_with_events :: pyval where
  "answer_with_events = PDict [(''asn'', PStr ''15169''), (''events'', PList example_events)]"

definition answering_world :: "pyval \<Rightarrow> unit world" where
  "answering_world res = example_world\<lparr>lookup_rdap := (\<lambda>obj methods. Inr res)\<rparr>"

subsection \<open>socket.inet\_aton as the platform provides it\<close>

text \<open>
  \<open>socket.inet_aton\<close> is not code of the repository: CPython hands the string to the C
  library's \<open>inet_aton\<close>, after refusing a string with an embedded null character
  (ValueError, a class outside \<open>socket.error\<close>). What follows models the GNU C
  library's function and is used where a property depends on which strings this step
  accepts; the functions of the module themselves take the step from the record of
  collaborators. The C function reads up to four numbers separated by dots, each as
  \<open>strtoul\<close> with base 0 reads it (decimal, octal after a leading \<open>0\<close>, hexadecimal
  after \<open>0x\<close>); the last number fills the bytes that are left; after the last number
  the string ends or white space follows.
\<close>

definition isdigit :: "char \<Rightarrow> bool" where
  "isdigit c = (48 \<le> (of_char c :: nat) \<and> (of_char c :: nat) \<le> 57)"

definition isspace :: "char \<Rightarrow> bool" where
  "isspace c =
     ((of_char c :: nat) = 32 \<or> (9 \<le> (of_char c :: nat) \<and> (of_char c :: nat) \<le> 13))"

text \<open>The value of a character as a digit of the given base, if it is one.\<close>

definition digit_of :: "nat \<Rightarrow> char \<Rightarrow> nat option" where
  "digit_of base c =
     (let n = (of_char c :: nat);
          v = (if 48 \<le> n \<and> n \<le> 57 then Some (n - 48)
               else if 97 \<le> n \<and> n \<le> 122 then Some (n - 87)
               else if 65 \<le> n \<and> n \<le> 90 then Some (n - 55)
               else None)
      in case v of None \<Rightarrow> None | Some d \<Rightarrow> if d < base then Some d else None)"

fun strtoul_digits :: "nat \<Rightarrow> nat \<Rightarrow> string \<Rightarrow> nat \<times> string" where
  "strtoul_digits base acc [] = (acc, [])"
| "strtoul_digits base acc (c # cs) =
     (case digit_of base c of
        Some d \<Rightarrow> strtoul_digits base (acc * base + d) cs
      | None \<Rightarrow> (acc, c # cs))"

fun has_hex_prefix :: "string \<Rightarrow> bool" where
  "has_hex_prefix (z # x # h # rest) =
     (z = CHR ''0'' \<and> (x = CHR ''x'' \<or> x = CHR ''X'') \<and> digit_of 16 h \<noteq> None)"
| "has_hex_prefix s = False"

text \<open>
  \<open>strtoul(cp, &endp, 0)\<close> on a string that starts with a digit: the number read and
  the rest of the string. The number is not bounded here; the caller refuses a number
  above \<open>0xffffffff\<close>, which is also what it does when the C function overflows.
\<close>

definition strtoul :: "string \<Rightarrow> nat \<times> string" where
  "strtoul cp =
     (if has_hex_prefix cp then strtoul_digits 16 0 (drop 2 cp)
      else if take 1 cp = ''0'' then strtoul_digits 8 0 cp
      else strtoul_digits 10 0 cp)"

definition trailing_ok :: "string \<Rightarrow> bool" where
  "trailing_ok rest =
     (case rest of [] \<Rightarrow> True | c # cs \<Rightarrow> (of_char c :: nat) < 128 \<and> isspace c)"

definition max_last :: "nat \<Rightarrow> nat" where
  "max_last n = [0xffffffff, 0xffffff, 0xffff, 0xff] ! n"

fun pack :: "nat \<Rightarrow> nat list \<Rightarrow> nat" where
  "pack shift [] = 0"
| "pack shift (p # ps) = p * 2 ^ shift + pack (shift - 8) ps"

definition finish :: "nat list \<Rightarrow> nat \<Rightarrow> string \<Rightarrow> 32 word option" where
  "finish parts val rest =
     (if trailing_ok rest \<and> val \<le> max_last (length parts)
      then Some (word_of_nat (pack 24 parts + val)) else None)"

lemma strtoul_digits_length: "length (snd (strtoul_digits b a s)) \<le> length s"
  by (induction s arbitrary: a) (auto split: option.splits intro: le_SucI)

lemma strtoul_length: "length (snd (strtoul cp)) \<le> length cp"
  using strtoul_digits_length [of 16 0 "drop 2 cp"] strtoul_digits_length [of 8 0 cp]
    strtoul_digits_length [of 10 0 cp]
  by (auto simp: strtoul_def)

text \<open>
  The loop of the C function: \<open>parts\<close> are the numbers stored so far, \<open>cp\<close> is what
  is left to read. \<open>None\<close> is the C function returning 0. The C function also tests
  that \<open>strtoul\<close> read at least one character; it reads a number only at a digit, so
  that test always passes and is left out.
\<close>

function inet_aton_loop :: "nat list \<Rightarrow> string \<Rightarrow> 32 word option" where
  "inet_aton_loop parts cp =
     (case cp of
        [] \<Rightarrow> None
      | c # cs \<Rightarrow>
          if \<not> isdigit c then None
          else
            (let val = fst (strtoul cp); endp = snd (strtoul cp) in
             if val > 0xffffffff then None
             else
               (case endp of
                  d # next_cp \<Rightarrow>
                    if d = CHR ''.'' then
                      (if length parts > 2 \<or> val > 0xff then None
                       else inet_aton_loop (parts @ [val]) next_cp)
                    else finish parts val endp
                | [] \<Rightarrow> finish parts val endp)))"
  by pat_completeness auto
termination
proof (relation "measure (\<lambda>(parts, cp). length cp)")
  show "wf (measure (\<lambda>(parts, cp). length cp))" by simp
next
  fix parts :: "nat list" and cp :: string and c cs val endp d next_cp
  assume "endp = snd (strtoul cp)" "endp = d # next_cp"
  then have "snd (strtoul cp) = d # next_cp"
    by simp
  with strtoul_length [of cp] have "length (d # next_cp) \<le> length cp"
    by simp
  then show "((parts @ [val], next_cp), (parts, cp)) \<in> measure (\<lambda>(parts, cp). length cp)"
    by simp
qed

definition socket_inet_aton :: "string \<Rightarrow> exception + 32 word" where
  "socket_inet_aton s =
     (if CHR 0x00 \<in> set s then Inl (Raised Exception ''embedded null character'')
      else case inet_aton_loop [] s of
        Some packed \<Rightarrow> Inr packed
      | None \<Rightarrow> Inl (Raised OSError ''illegal IP address string passed to inet_aton''))"

subsection \<open>IPv4 dotted-quad literals\<close>

text \<open>
  The specification's "valid IPv4 dotted-quad literal", in the strict form of
  \<open>inet_pton\<close> and of RFC 3986: four decimal numbers from 0 to 255 separated by dots,
  none written with a leading zero.
\<close>

fun split_dots :: "string \<Rightarrow> string list" where
  "split_dots [] = [[]]"
| "split_dots (c # cs) =
     (if c = CHR ''.'' then [] # split_dots cs
      else (case split_dots cs of p # ps \<Rightarrow> (c # p) # ps | [] \<Rightarrow> [[c]]))"

definition dec_value :: "string \<Rightarrow> nat" where
  "dec_value p = foldl (\<lambda>acc c. acc * 10 + ((of_char c :: nat) - 48)) 0 p"

definition is_dec_octet :: "string \<Rightarrow> bool" where
  "is_dec_octet p =
     (p \<noteq> [] \<and> list_all isdigit p \<and> (p = ''0'' \<or> hd p \<noteq> CHR ''0'') \<and> dec_value p \<le> 255)"

definition is_dotted_quad :: "string \<Rightarrow> bool" where
  "is_dotted_quad s =
     (case split_dots s of
        [a, b, c, d] \<Rightarrow> is_dec_octet a \<and> is_dec_octet b \<and> is_dec_octet c \<and> is_dec_octet d
      | _ \<Rightarrow> False)"

text \<open>What is left of a string stops a number: it is empty or begins with a dot.\<close>

definition stops :: "string \<Rightarrow> bool" where
  "stops r = (r = [] \<or> hd r = CHR ''.'')"

text \<open>
  The world of a machine with the C library above: \<open>inet_aton\<close> is the model, the
  name service is the given function.
\<close>

definition resolver_world :: "(string \<Rightarrow> exception + string) \<Rightarrow> unit world" where
  "resolver_world dns = example_world\<lparr>inet_aton := socket_inet_aton, gethostbyname := dns\<rparr>"

text \<open>A name service that knows one host.\<close>

definition example_dns :: "string \<Rightarrow> exception + string" where
  "example_dns h =
     (if h = ''example.com'' then Inr ''93.184.216.34''
      else Inl (Raised gaierror ''[Errno -2] Name or service not known''))"

section \<open>Properties\<close>

subsection \<open>Shared facts about the two functions\<close>

lemma try_body_success:
  assumes "IPWhois w ip = Inr obj" and "lookup_rdap w obj [''whois''] = Inr res"
  shows "try_body w ip =
    \<lparr>trace = [Call_IPWhois ip, Call_lookup_rdap [''whois'']], returned = Inr res\<rparr>"
  using assms by (simp add: try_body_def)

lemma asn_lookup_success:
  assumes "IPWhois w ip = Inr obj" and "lookup_rdap w obj [''whois''] = Inr res"
  shows "asn_lookup w ip =
    \<lparr>trace = [Call_IPWhois ip, Call_lookup_rdap [''whois'']], returned = Inr res\<rparr>"
  using try_body_success [OF assms] by (simp add: asn_lookup_def)

subsection \<open>C10: the lookup client returns the answer unchanged\<close>

text \<open>
  C10. Whenever \<open>IPWhois(ip)\<close> and \<open>lookup_rdap\<close> both return, \<open>asn_lookup\<close> returns
  the very value \<open>lookup_rdap\<close> returned: no field is extracted, renamed or replaced by
  a sentinel, and nothing is printed. The sentinel \<open>'N/A'\<close> occurs only in the
  command-line block (\<open>print_get\<close>, \<open>print_event\<close>).
\<close>

theorem asn_lookup_returns_answer_unchanged:
  assumes "IPWhois w ip = Inr obj" and "lookup_rdap w obj [''whois''] = Inr res"
  shows "returned (asn_lookup w ip) = Inr res
       \<and> trace (asn_lookup w ip) = [Call_IPWhois ip, Call_lookup_rdap [''whois'']]"
  using asn_lookup_success [OF assms] by simp

theorem asn_lookup_returns_answer_unchanged_witness:
  "returned (asn_lookup example_world ''8.8.8.8'') = Inr example_answer
   \<and> trace (asn_lookup example_world ''8.8.8.8'')
       = [Call_IPWhois ''8.8.8.8'', Call_lookup_rdap [''whois'']]
   \<and> dict_get example_answer ''network'' (PDict [])
       = Inr (PDict [(''name'', PStr ''LVLT-GOGL-8-8-8'')])"
proof -
  have a: "IPWhois example_world ''8.8.8.8'' = Inr ()"
    by (simp add: example_world_def)
  have b: "lookup_rdap example_world () [''whois''] = Inr example_answer"
    by (simp add: example_world_def)
  have c: "dict_get example_answer ''network'' (PDict [])
       = Inr (PDict [(''name'', PStr ''LVLT-GOGL-8-8-8'')])"
    by (simp add: example_answer_def)
  show ?thesis
    using asn_lookup_returns_answer_unchanged [OF a b] c by simp
qed

subsection \<open>C1, C2: what a failed lookup returns\<close>

lemma printed_line_Call [simp]:
  "printed_line (Call_IPWhois ip) = None" "printed_line (Call_lookup_rdap ms) = None"
  by simp_all

lemma try_body_trace:
  "trace (try_body w ip) = [Call_IPWhois ip]
   \<or> trace (try_body w ip) = [Call_IPWhois ip, Call_lookup_rdap [''whois'']]"
  by (simp add: try_body_def split: sum.splits)

lemma try_body_printed: "printed (try_body w ip) = []"
  using try_body_trace [of w ip] by (auto simp: printed_def)

lemma printed_append_Print:
  "List.map_filter printed_line (tr @ [Print line]) = List.map_filter printed_line tr @ [line]"
  by (simp add: List.map_filter_def)

lemma asn_lookup_IPDefinedError:
  assumes "returned (try_body w ip) = Inl e" and "cls e = IPDefinedError"
  shows "asn_lookup w ip =
    \<lparr>trace = trace (try_body w ip) @ [Print (''Error: '' @ str_exc e)], returned = Inr PNone\<rparr>"
  using assms by (simp add: asn_lookup_def Let_def)

lemma asn_lookup_Exception:
  assumes "returned (try_body w ip) = Inl e"
    and "issubclass (cls e) Exception" and "cls e \<noteq> IPDefinedError"
  shows "asn_lookup w ip =
    \<lparr>trace = trace (try_body w ip) @ [Print (''ASN lookup failed: '' @ str_exc e)],
     returned = Inr PNone\<rparr>"
  using assms by (simp add: asn_lookup_def Let_def)

lemma try_body_refusing: "try_body (refusing_world e) ip = \<lparr>trace = [Call_IPWhois ip], returned = Inl e\<rparr>"
  by (simp add: try_body_def refusing_world_def)

lemma try_body_failing:
  "try_body (failing_world e) ip =
     \<lparr>trace = [Call_IPWhois ip, Call_lookup_rdap [''whois'']], returned = Inl e\<rparr>"
  by (simp add: try_body_def failing_world_def example_world_def)

text \<open>
  C1, as stated, fails. For \<open>127.0.0.1\<close> with a registry that raises
  \<open>IPDefinedError\<close>, \<open>asn_lookup\<close> returns \<open>None\<close>, the value it also returns when
  the registry raises a plain exception with the same text: no reading of the returned
  value as a \<open>LookupOutcome\<close> gives \<open>Failure ReservedAddress\<close> for the one and
  \<open>Failure LookupError\<close> for the other.
\<close>

theorem reserved_address_outcome_counterexample:
  "returned (asn_lookup (refusing_world (Raised IPDefinedError ''IPv4 address 127.0.0.1 is already defined as Loopback via RFC 1122, Section 3.2.1.3.'')) ''127.0.0.1'')
     = (Inr PNone :: exception + pyval)
   \<and> returned (asn_lookup (refusing_world (Raised Exception ''IPv4 address 127.0.0.1 is already defined as Loopback via RFC 1122, Section 3.2.1.3.'')) ''127.0.0.1'')
     = (Inr PNone :: exception + pyval)
   \<and> \<not> (\<exists>decode :: exception + pyval \<Rightarrow> LookupOutcome. \<exists>m m'.
        decode (returned (asn_lookup (refusing_world (Raised IPDefinedError ''IPv4 address 127.0.0.1 is already defined as Loopback via RFC 1122, Section 3.2.1.3.'')) ''127.0.0.1''))
          = Failure ReservedAddress m
      \<and> decode (returned (asn_lookup (refusing_world (Raised Exception ''IPv4 address 127.0.0.1 is already defined as Loopback via RFC 1122, Section 3.2.1.3.'')) ''127.0.0.1''))
          = Failure LookupError m')"
  by (auto simp: asn_lookup_def try_body_refusing)

text \<open>
  C1, amended. When the registry query raises \<open>IPDefinedError\<close>, from \<open>IPWhois(ip)\<close>
  or from \<open>lookup_rdap\<close>, \<open>asn_lookup\<close> does not raise: it prints the one line
  \<open>Error: <text of the exception>\<close> and returns \<open>None\<close>.
\<close>

theorem asn_lookup_reserved_address:
  assumes "returned (try_body w ip) = Inl e" and "cls e = IPDefinedError"
  shows "returned (asn_lookup w ip) = Inr PNone
       \<and> printed (asn_lookup w ip) = [''Error: '' @ str_exc e]"
  using asn_lookup_IPDefinedError [OF assms] try_body_printed [of w ip]
  by (simp add: printed_def printed_append_Print)

theorem asn_lookup_reserved_address_witness:
  "returned (asn_lookup (refusing_world (Raised IPDefinedError ''reserved'')) ''10.0.0.1'')
     = (Inr PNone :: exception + pyval)
   \<and> printed (asn_lookup (refusing_world (Raised IPDefinedError ''reserved'')) ''10.0.0.1'')
     = [''Error: reserved'']"
proof -
  have a: "returned (try_body (refusing_world (Raised IPDefinedError ''reserved'')) ''10.0.0.1'')
      = Inl (Raised IPDefinedError ''reserved'')"
    by (simp add: try_body_refusing)
  have b: "cls (Raised IPDefinedError ''reserved'') = IPDefinedError"
    by simp
  show ?thesis
    using asn_lookup_reserved_address [OF a b] by simp
qed

text \<open>
  C2, as stated, fails. A registry that times out and one that sends a malformed answer
  leave \<open>asn_lookup\<close> returning the same \<open>None\<close>: the returned value carries neither
  an error kind nor the text of the exception.
\<close>

theorem lookup_error_outcome_counterexample:
  "returned (asn_lookup (failing_world (Raised Exception ''timed out'')) ''8.8.8.8'')
     = (Inr PNone :: exception + pyval)
   \<and> returned (asn_lookup (failing_world (Raised Exception ''malformed response'')) ''8.8.8.8'')
     = (Inr PNone :: exception + pyval)
   \<and> \<not> (\<exists>decode :: exception + pyval \<Rightarrow> LookupOutcome.
        decode (returned (asn_lookup (failing_world (Raised Exception ''timed out'')) ''8.8.8.8''))
          = Failure LookupError ''timed out''
      \<and> decode (returned (asn_lookup (failing_world (Raised Exception ''malformed response'')) ''8.8.8.8''))
          = Failure LookupError ''malformed response'')"
  by (auto simp: asn_lookup_def try_body_failing)

text \<open>
  C2, amended. When the registry query raises an exception of a class under
  \<open>Exception\<close> other than \<open>IPDefinedError\<close>, \<open>asn_lookup\<close> does not raise: it
  prints the one line \<open>ASN lookup failed: <text of the exception>\<close> and returns
  \<open>None\<close>. The text reaches the output only.
\<close>

theorem asn_lookup_other_exception:
  assumes "returned (try_body w ip) = Inl e"
    and "issubclass (cls e) Exception" and "cls e \<noteq> IPDefinedError"
  shows "returned (asn_lookup w ip) = Inr PNone
       \<and> printed (asn_lookup w ip) = [''ASN lookup failed: '' @ str_exc e]"
  using asn_lookup_Exception [OF assms] try_body_printed [of w ip]
  by (simp add: printed_def printed_append_Print)

theorem asn_lookup_other_exception_witness:
  "returned (asn_lookup (failing_world (Raised OSError ''Network is unreachable'')) ''8.8.8.8'')
     = (Inr PNone :: exception + pyval)
   \<and> printed (asn_lookup (failing_world (Raised OSError ''Network is unreachable'')) ''8.8.8.8'')
     = [''ASN lookup failed: Network is unreachable'']"
proof -
  have a: "returned (try_body (failing_world (Raised OSError ''Network is unreachable'')) ''8.8.8.8'')
      = Inl (Raised OSError ''Network is unreachable'')"
    by (simp add: try_body_failing)
  have b: "issubclass (cls (Raised OSError ''Network is unreachable'')) Exception"
    by simp
  have c: "cls (Raised OSError ''Network is unreachable'') \<noteq> IPDefinedError"
    by simp
  show ?thesis
    using asn_lookup_other_exception [OF a b c] by simp
qed

text \<open>An exception outside \<open>Exception\<close> is not caught.\<close>

lemma asn_lookup_BaseException:
  assumes "returned (try_body w ip) = Inl e" and "cls e = BaseException"
  shows "returned (asn_lookup w ip) = Inl e"
  using assms by (simp add: asn_lookup_def Let_def)

subsection \<open>C8: the registry queries of a lookup\<close>

lemma asn_lookup_trace_cases:
  "trace (asn_lookup w ip) = trace (try_body w ip)
   \<or> (\<exists>line. trace (asn_lookup w ip) = trace (try_body w ip) @ [Print line])"
  by (simp add: asn_lookup_def Let_def split: sum.splits)

lemma try_body_registry_queries:
  "registry_queries (try_body w ip) =
     (case IPWhois w ip of Inl e \<Rightarrow> [] | Inr obj \<Rightarrow> [Call_lookup_rdap [''whois'']])"
  by (simp add: registry_queries_def try_body_def split: sum.splits)

lemma try_body_no_lookup_whois: "Call_lookup_whois \<notin> set (trace (try_body w ip))"
  using try_body_trace [of w ip] by auto

text \<open>
  C8, as stated, fails. The constructor \<open>IPWhois(ip)\<close> stands inside the \<open>try\<close> and
  may raise, as the ipwhois library does for \<open>127.0.0.1\<close>; then \<open>lookup_rdap\<close> is
  never reached and the lookup issues no registry query at all.
\<close>

theorem one_registry_query_counterexample:
  "registry_queries (asn_lookup (refusing_world (Raised IPDefinedError ''IPv4 address 127.0.0.1 is already defined'')) ''127.0.0.1'') = []
   \<and> length (registry_queries (asn_lookup (refusing_world (Raised IPDefinedError ''IPv4 address 127.0.0.1 is already defined'')) ''127.0.0.1'')) \<noteq> 1"
  by (simp add: registry_queries_def asn_lookup_def try_body_refusing)

text \<open>
  C8, amended. A lookup issues at most one registry query: none when \<open>IPWhois(ip)\<close>
  raises, and otherwise exactly one, \<open>lookup_rdap(asn_methods=["whois"])\<close>, whether
  it returns or raises. \<open>lookup_whois\<close> is never called.
\<close>

theorem asn_lookup_registry_queries:
  "registry_queries (asn_lookup w ip) =
     (case IPWhois w ip of Inl e \<Rightarrow> [] | Inr obj \<Rightarrow> [Call_lookup_rdap [''whois'']])
   \<and> Call_lookup_whois \<notin> set (trace (asn_lookup w ip))"
proof -
  have q: "registry_queries (asn_lookup w ip) = registry_queries (try_body w ip)"
    using asn_lookup_trace_cases [of w ip] by (auto simp: registry_queries_def)
  have n: "Call_lookup_whois \<notin> set (trace (asn_lookup w ip))"
    using asn_lookup_trace_cases [of w ip] try_body_no_lookup_whois [of w ip] by auto
  show ?thesis
    using q n by (simp add: try_body_registry_queries)
qed

theorem asn_lookup_registry_queries_witness:
  "registry_queries (asn_lookup example_world ''8.8.8.8'') = [Call_lookup_rdap [''whois'']]
   \<and> registry_queries (asn_lookup (failing_world (Raised Exception ''timed out'')) ''8.8.8.8'')
       = [Call_lookup_rdap [''whois'']]
   \<and> Call_lookup_whois \<notin> set (trace (asn_lookup example_world ''8.8.8.8''))"
  using asn_lookup_registry_queries [of example_world "''8.8.8.8''"]
    asn_lookup_registry_queries [of "failing_world (Raised Exception ''timed out'')" "''8.8.8.8''"]
  by (simp add: example_world_def failing_world_def)

subsection \<open>Sequencing and printing\<close>

lemma printed_simps [simp]:
  "printed (print line :: ('e, unit) run) = [line]"
  "printed (skip :: ('e, unit) run) = []"
  "printed (expr x) = []"
  by (simp_all add: printed_def print_def skip_def expr_def)

lemma returned_simps [simp]:
  "returned (print line :: ('e, unit) run) = Inr ()"
  "returned (skip :: ('e, unit) run) = Inr ()"
  "returned (expr x) = x"
  by (simp_all add: print_def skip_def expr_def)

lemma then_run_Inr:
  assumes "returned m = Inr x"
  shows "printed (then_run m f) = printed m @ printed (f x)"
    and "returned (then_run m f) = returned (f x)"
  using assms by (simp_all add: then_run_def printed_def List.map_filter_def)

lemma then_run_Inl:
  assumes "returned m = Inl e"
  shows "printed (then_run m f) = printed m" and "returned (then_run m f) = Inl e"
  using assms by (simp_all add: then_run_def printed_def)

lemma print_event_dict:
  "printed (print_event w (PDict kvs)) = [event_line w (PDict kvs)]"
  "returned (print_event w (PDict kvs)) = Inr ()"
  by (simp_all add: print_event_def event_line_def get_or_NA_def then_run_Inr
      split: option.splits)

lemma seq_print_events:
  assumes "list_all is_dict evs"
  shows "printed (seq_runs (map (print_event w) evs)) = map (event_line w) evs
       \<and> returned (seq_runs (map (print_event w) evs)) = Inr ()"
  using assms
proof (induction evs)
  case Nil
  show ?case by simp
next
  case (Cons ev evs)
  from Cons.prems obtain kvs where ev: "ev = PDict kvs"
    by (cases ev) simp_all
  from Cons.prems have rest: "list_all is_dict evs"
    by simp
  show ?case
    using Cons.IH [OF rest] by (simp add: ev then_run_Inr print_event_dict)
qed

lemma event_history_list:
  assumes "dict_get res ''events'' (PList []) = Inr (PList evs)" and "list_all is_dict evs"
  shows "printed (event_history w res) =
     (if evs = [] then [] else (CHR 0x0A # ''Event History:'') # map (event_line w) evs)"
  using assms seq_print_events [OF assms(2), of w]
  by (simp add: event_history_def then_run_Inr)

subsection \<open>C7: the events keep the registry's order\<close>

text \<open>
  C7. When the registry's answer has a list under \<open>events\<close>, the value \<open>asn_lookup\<close>
  returns has that same list, in the same order, and the command-line block prints one
  line for each event in that order, whatever the dates are. (An event that is not a
  dictionary would raise at its turn; the registry's events are dictionaries.)
\<close>

theorem events_keep_registry_order:
  assumes "IPWhois w ip = Inr obj" and "lookup_rdap w obj [''whois''] = Inr res"
    and "dict_get res ''events'' (PList []) = Inr (PList evs)"
    and "list_all is_dict evs"
  shows "\<exists>out. returned (asn_lookup w ip) = Inr out
       \<and> dict_get out ''events'' (PList []) = Inr (PList evs)
       \<and> printed (event_history w out) =
           (if evs = [] then [] else (CHR 0x0A # ''Event History:'') # map (event_line w) evs)"
  using asn_lookup_success [OF assms(1,2)] event_history_list [OF assms(3,4), of w] assms(3)
  by simp

theorem events_keep_registry_order_witness:
  "\<exists>out. returned (asn_lookup (answering_world answer_with_events) ''8.8.8.8'') = Inr out
     \<and> dict_get out ''events'' (PList []) = Inr (PList example_events)
     \<and> printed (event_history (answering_world answer_with_events) out) =
         [CHR 0x0A # ''Event History:'',
          ''Event: last changed, Date: 2020-01-01'',
          ''Event: registration, Date: 2015-05-05'']"
proof -
  have a: "IPWhois (answering_world answer_with_events) ''8.8.8.8'' = Inr ()"
    by (simp add: answering_world_def example_world_def)
  have b: "lookup_rdap (answering_world answer_with_events) () [''whois'']
      = Inr answer_with_events"
    by (simp add: answering_world_def)
  have c: "dict_get answer_with_events ''events'' (PList []) = Inr (PList example_events)"
    by (simp add: answer_with_events_def)
  have d: "list_all is_dict example_events"
    by (simp add: example_events_def)
  have e: "map (event_line (answering_world answer_with_events)) example_events =
      [''Event: last changed, Date: 2020-01-01'', ''Event: registration, Date: 2015-05-05'']"
    by (simp add: example_events_def event_line_def get_or_NA_def format_value_def)
  have f: "example_events \<noteq> []"
    by (simp add: example_events_def)
  show ?thesis
    using events_keep_registry_order [OF a b c d] e f by simp
qed

subsection \<open>C6: an answer without the network object\<close>

lemma network_details_missing:
  assumes "map_of kvs ''network'' = None"
  shows "network_details w (PDict kvs) = skip"
  using assms by (simp add: network_details_def then_run_def expr_def skip_def)

lemma print_get_dict:
  "printed (print_get w label (PDict nd) key) = [label @ format_value w (get_or_NA (PDict nd) key)]"
  "returned (print_get w label (PDict nd) key) = Inr ()"
  by (simp_all add: print_get_def get_or_NA_def then_run_Inr split: option.splits)

text \<open>
  The sentinel is used when the network object is there: with a non-empty dictionary
  under \<open>network\<close>, the six lines are printed, each with the field or \<open>N/A\<close>.
\<close>

lemma network_details_present:
  assumes "map_of kvs ''network'' = Some (PDict nd)" and "nd \<noteq> []"
  shows "printed (network_details w (PDict kvs)) =
     [CHR 0x0A # ''Network Details:'',
      ''Network Name: '' @ format_value w (get_or_NA (PDict nd) ''name''),
      ''Network Start IP: '' @ format_value w (get_or_NA (PDict nd) ''start_address''),
      ''Network End IP: '' @ format_value w (get_or_NA (PDict nd) ''end_address''),
      ''Network Country: '' @ format_value w (get_or_NA (PDict nd) ''country''),
      ''Network Type: '' @ format_value w (get_or_NA (PDict nd) ''type''),
      ''Network Description: '' @ format_value w (get_or_NA (PDict nd) ''description'')]"
  using assms by (simp add: network_details_def then_run_Inr print_get_dict)

text \<open>
  C6, as stated, fails. For an answer without \<open>network\<close> the block prints the six ASN
  lines and nothing about the network: no field of it is produced, and the sentinel
  \<open>N/A\<close> appears nowhere in the output.
\<close>

theorem missing_network_sentinel_counterexample:
  "printed (present example_world ''8.8.8.8'' answer_without_network) =
     [''ASN Information for 8.8.8.8:'', [],
      ''ASN: 15169'', ''ASN CIDR: 8.8.8.0/24'', ''ASN Country Code: US'',
      ''ASN Registry: arin'', ''ASN Description: GOOGLE, US'',
      ''ASN Allocation Date: 1992-12-01'']
   \<and> ''Network Name: N/A'' \<notin> set (printed (present example_world ''8.8.8.8'' answer_without_network))
   \<and> printed (network_details example_world answer_without_network) = []"
  by (simp add: present_def answer_without_network_def print_item_def format_value_def
      network_details_def event_history_def then_run_Inr)

text \<open>
  C6, amended. For an answer that is a dictionary without the key \<open>network\<close>,
  \<open>asn_lookup\<close> still returns the answer, and the command-line block skips the network
  section: it prints nothing for it and raises nothing.
\<close>

theorem missing_network_section_skipped:
  assumes "IPWhois w ip = Inr obj" and "lookup_rdap w obj [''whois''] = Inr (PDict kvs)"
    and "map_of kvs ''network'' = None"
  shows "returned (asn_lookup w ip) = Inr (PDict kvs)
       \<and> printed (network_details w (PDict kvs)) = []
       \<and> returned (network_details w (PDict kvs)) = Inr ()"
  using asn_lookup_success [OF assms(1,2)] network_details_missing [OF assms(3), of w]
  by simp

theorem missing_network_section_skipped_witness:
  "returned (asn_lookup (answering_world answer_without_network) ''8.8.8.8'')
     = Inr answer_without_network
   \<and> printed (network_details (answering_world answer_without_network) answer_without_network) = []
   \<and> returned (network_details (answering_world answer_without_network) answer_without_network)
     = Inr ()"
proof -
  have a: "IPWhois (answering_world answer_without_network) ''8.8.8.8'' = Inr ()"
    by (simp add: answering_world_def example_world_def)
  have b: "lookup_rdap (answering_world answer_without_network) () [''whois'']
      = Inr (PDict [(''asn'', PStr ''15169''), (''asn_cidr'', PStr ''8.8.8.0/24''),
            (''asn_country_code'', PStr ''US''), (''asn_registry'', PStr ''arin''),
            (''asn_description'', PStr ''GOOGLE, US''), (''asn_date'', PStr ''1992-12-01'')])"
    by (simp add: answering_world_def answer_without_network_def)
  have c: "map_of [(''asn'', PStr ''15169''), (''asn_cidr'', PStr ''8.8.8.0/24''),
            (''asn_country_code'', PStr ''US''), (''asn_registry'', PStr ''arin''),
            (''asn_description'', PStr ''GOOGLE, US''), (''asn_date'', PStr ''1992-12-01'')]
           ''network'' = None"
    by simp
  show ?thesis
    using missing_network_section_skipped [OF a b c]
    by (simp add: answer_without_network_def)
qed

subsection \<open>The three ways get\_ip\_from\_input returns\<close>

lemma get_ip_parsed:
  assumes "inet_aton w s = Inr packed"
  shows "get_ip_from_input w s =
    \<lparr>trace = [Call_inet_aton s], returned = Inr (Some s, Some False)\<rparr>"
  using assms by (simp add: get_ip_from_input_def)

lemma get_ip_resolved:
  assumes "inet_aton w s = Inl e" and "issubclass (cls e) OSError"
    and "gethostbyname w s = Inr a"
  shows "get_ip_from_input w s =
    \<lparr>trace = [Call_inet_aton s, Call_gethostbyname s], returned = Inr (Some a, Some True)\<rparr>"
  using assms by (simp add: get_ip_from_input_def)


lemma get_ip_returned_cases:
  assumes "returned (get_ip_from_input w s) = Inr r"
  shows "r = (Some s, Some False) \<and> (\<exists>packed. inet_aton w s = Inr packed)
       \<or> (\<exists>a. r = (Some a, Some True) \<and> gethostbyname w s = Inr a)
       \<or> r = (None, None)"
  using assms by (auto simp: get_ip_from_input_def split: sum.splits if_splits)


lemma get_ip_gethostbyname_propagates:
  assumes "inet_aton w s = Inl e" and "issubclass (cls e) OSError"
    and "gethostbyname w s = Inl e'" and "\<not> issubclass (cls e') gaierror"
  shows "returned (get_ip_from_input w s) = Inl e'"
  using assms by (simp add: get_ip_from_input_def)

lemmas inet_aton_eval =
  socket_inet_aton_def strtoul_def isdigit_def isspace_def digit_of_def trailing_ok_def
  max_last_def finish_def

lemma resolver_world_fields [simp]:
  "inet_aton (resolver_world dns) = socket_inet_aton"
  "gethostbyname (resolver_world dns) = dns"
  by (simp_all add: resolver_world_def)

subsection \<open>C9: strings that are not dotted quads and are taken as addresses\<close>

lemma split_dots_127_1: "split_dots ''127.1'' = [''127'', ''1'']"
  by simp

lemma split_dots_2130706433: "split_dots ''2130706433'' = [''2130706433'']"
  by simp

text \<open>
  C9. The shorthand \<open>127.1\<close> and the bare number \<open>2130706433\<close> are not dotted quads,
  yet \<open>inet_aton\<close> accepts both; \<open>get_ip_from_input\<close> then returns them unchanged
  with the flag \<open>False\<close>, the caller's test \<open>if ip_address:\<close> passes, and the only
  collaborator call is the one to \<open>inet_aton\<close>: the name service is not asked,
  whatever it would have answered.
\<close>

theorem shorthand_taken_as_address:
  "\<not> is_dotted_quad ''127.1'' \<and> \<not> is_dotted_quad ''2130706433''
   \<and> get_ip_from_input (resolver_world dns) ''127.1'' =
       \<lparr>trace = [Call_inet_aton ''127.1''], returned = Inr (Some ''127.1'', Some False)\<rparr>
   \<and> get_ip_from_input (resolver_world dns) ''2130706433'' =
       \<lparr>trace = [Call_inet_aton ''2130706433''],
        returned = Inr (Some ''2130706433'', Some False)\<rparr>
   \<and> valid (resolution_result (Some ''127.1'', Some False))
   \<and> valid (resolution_result (Some ''2130706433'', Some False))"
proof -
  have a: "\<not> is_dotted_quad ''127.1''"
    by (simp add: is_dotted_quad_def split_dots_127_1)
  have b: "\<not> is_dotted_quad ''2130706433''"
    by (simp add: is_dotted_quad_def split_dots_2130706433)
  have c: "inet_aton (resolver_world dns) ''127.1'' = Inr 0x7f000001"
    by (simp add: inet_aton_eval)
  have d: "inet_aton (resolver_world dns) ''2130706433'' = Inr 0x7f000001"
    by (simp add: inet_aton_eval)
  show ?thesis
    using a b get_ip_parsed [OF c] get_ip_parsed [OF d]
    by (simp add: resolution_result_def)
qed

theorem shorthand_taken_as_address_witness:
  "get_ip_from_input (resolver_world example_dns) ''127.1'' =
       \<lparr>trace = [Call_inet_aton ''127.1''], returned = Inr (Some ''127.1'', Some False)\<rparr>
   \<and> Call_gethostbyname ''127.1''
       \<notin> set (trace (get_ip_from_input (resolver_world example_dns) ''127.1''))"
  using shorthand_taken_as_address [of example_dns] by simp

subsection \<open>C5: a hostname that resolves\<close>

text \<open>
  C5. When \<open>inet_aton\<close> refuses \<open>h\<close> with \<open>socket.error\<close> and \<open>gethostbyname(h)\<close>
  returns the address \<open>a\<close>, \<open>get_ip_from_input\<close> returns \<open>a\<close> with the flag
  \<open>True\<close>, the caller's test \<open>if ip_address:\<close> passes, and the name service was
  asked exactly once.
\<close>

theorem hostname_resolved:
  assumes "inet_aton w h = Inl e" and "issubclass (cls e) OSError"
    and "gethostbyname w h = Inr a" and "a \<noteq> []"
  shows "\<exists>r. returned (get_ip_from_input w h) = Inr r
       \<and> resolution_result r = \<lparr>address = Some a, sourceWasHostname = Some True, valid = True\<rparr>
       \<and> trace (get_ip_from_input w h) = [Call_inet_aton h, Call_gethostbyname h]"
  using get_ip_resolved [OF assms(1,2,3)] assms(4) by (simp add: resolution_result_def)

theorem hostname_resolved_witness:
  "\<exists>r. returned (get_ip_from_input (resolver_world example_dns) ''example.com'') = Inr r
     \<and> resolution_result r =
         \<lparr>address = Some ''93.184.216.34'', sourceWasHostname = Some True, valid = True\<rparr>
     \<and> trace (get_ip_from_input (resolver_world example_dns) ''example.com'')
         = [Call_inet_aton ''example.com'', Call_gethostbyname ''example.com'']"
proof -
  have a: "inet_aton (resolver_world example_dns) ''example.com''
      = Inl (Raised OSError ''illegal IP address string passed to inet_aton'')"
    by (simp add: inet_aton_eval)
  have b: "issubclass (cls (Raised OSError ''illegal IP address string passed to inet_aton'')) OSError"
    by simp
  have c: "gethostbyname (resolver_world example_dns) ''example.com'' = Inr ''93.184.216.34''"
    by (simp add: example_dns_def)
  have d: "''93.184.216.34'' \<noteq> []"
    by simp
  show ?thesis
    using hostname_resolved [OF a b c d] by simp
qed

subsection \<open>C4: input that is neither an address nor a resolvable name\<close>






subsection \<open>C3: a dotted quad is returned as it is\<close>

lemma split_dots_nonempty: "split_dots s \<noteq> []"
  by (induction s) (auto split: list.splits)

text \<open>The first piece of a split string is followed by a dot and the string of the others.\<close>

lemma split_dots_Cons:
  assumes "split_dots s = p # ps"
  shows "(ps = [] \<and> s = p) \<or> (\<exists>rest. s = p @ CHR ''.'' # rest \<and> split_dots rest = ps)"
  using assms
proof (induction s arbitrary: p ps)
  case Nil
  then show ?case by simp
next
  case (Cons c cs)
  show ?case
  proof (cases "c = CHR ''.''")
    case True
    with Cons.prems have "p = []" and "ps = split_dots cs"
      by simp_all
    with True show ?thesis by simp
  next
    case False
    obtain q qs where q: "split_dots cs = q # qs"
      using split_dots_nonempty [of cs] by (cases "split_dots cs") simp_all
    with False Cons.prems have p: "p = c # q" and ps: "ps = qs"
      by simp_all
    from Cons.IH [OF q] show ?thesis
      using p ps by auto
  qed
qed

lemma split_dots_four:
  assumes "split_dots s = [a, b, c, d]"
  shows "s = a @ CHR ''.'' # b @ CHR ''.'' # c @ CHR ''.'' # d"
proof -
  from split_dots_Cons [OF assms] obtain r1 where
    r1: "s = a @ CHR ''.'' # r1" "split_dots r1 = [b, c, d]"
    by auto
  from split_dots_Cons [OF r1(2)] obtain r2 where
    r2: "r1 = b @ CHR ''.'' # r2" "split_dots r2 = [c, d]"
    by auto
  from split_dots_Cons [OF r2(2)] obtain r3 where
    r3: "r2 = c @ CHR ''.'' # r3" "split_dots r3 = [d]"
    by auto
  from split_dots_Cons [OF r3(2)] have "r3 = d"
    using split_dots_nonempty by auto
  with r1(1) r2(1) r3(1) show ?thesis by simp
qed

text \<open>Reading a decimal number that is followed by a dot or by the end of the string.\<close>

lemma digit_of_isdigit:
  assumes "isdigit c"
  shows "digit_of 10 c = Some ((of_char c :: nat) - 48)"
  using assms by (auto simp: isdigit_def digit_of_def Let_def)

lemma digit_of_dot [simp]: "digit_of b (CHR ''.'') = None"
  by (simp add: digit_of_def)

lemma strtoul_digits_stops:
  assumes "stops r"
  shows "strtoul_digits b acc r = (acc, r)"
  using assms by (cases r) (auto simp: stops_def)

lemma strtoul_digits_decimal:
  assumes "list_all isdigit p" and "stops r"
  shows "strtoul_digits 10 acc (p @ r) =
     (foldl (\<lambda>acc c. acc * 10 + ((of_char c :: nat) - 48)) acc p, r)"
  using assms
proof (induction p arbitrary: acc)
  case Nil
  then show ?case by (simp add: strtoul_digits_stops)
next
  case (Cons c p)
  then show ?case by (simp add: digit_of_isdigit)
qed

lemma has_hex_prefix_nonzero:
  assumes "hd cp \<noteq> CHR ''0''"
  shows "\<not> has_hex_prefix cp"
  using assms by (cases cp rule: has_hex_prefix.cases) simp_all

lemma strtoul_zero:
  assumes "stops r"
  shows "strtoul (''0'' @ r) = (0, r)"
proof -
  have d: "digit_of 8 (CHR ''0'') = Some 0"
    by (simp add: digit_of_def)
  have h: "\<not> has_hex_prefix (CHR ''0'' # r)"
    using assms by (cases r rule: has_hex_prefix.cases) (auto simp: stops_def)
  show ?thesis
    using h d assms by (simp add: strtoul_def strtoul_digits_stops)
qed

lemma strtoul_dec_octet:
  assumes "is_dec_octet p" and "stops r"
  shows "strtoul (p @ r) = (dec_value p, r)"
proof (cases "p = ''0''")
  case True
  then show ?thesis
    using strtoul_zero [OF assms(2)] by (simp add: dec_value_def)
next
  case False
  with assms(1) have nz: "hd p \<noteq> CHR ''0''" and ne: "p \<noteq> []" and dg: "list_all isdigit p"
    by (simp_all add: is_dec_octet_def)
  from ne nz have hd: "hd (p @ r) \<noteq> CHR ''0''"
    by simp
  from ne nz have tk: "take 1 (p @ r) \<noteq> ''0''"
    by (cases p) simp_all
  show ?thesis
    using has_hex_prefix_nonzero [OF hd] tk strtoul_digits_decimal [OF dg assms(2), of 0]
    by (simp add: strtoul_def dec_value_def)
qed

lemma dec_octet_starts_with_digit:
  assumes "is_dec_octet p"
  shows "\<exists>c cs. p @ r = c # cs \<and> isdigit c"
  using assms by (cases p) (simp_all add: is_dec_octet_def)

text \<open>One turn of the loop on an octet that a dot follows, and the last turn.\<close>

lemma inet_aton_loop_step:
  assumes "is_dec_octet p" and "length parts \<le> 2"
  shows "inet_aton_loop parts (p @ CHR ''.'' # rest)
       = inet_aton_loop (parts @ [dec_value p]) rest"
proof -
  have st: "stops (CHR ''.'' # rest)"
    by (simp add: stops_def)
  obtain c cs where c: "p @ CHR ''.'' # rest = c # cs" "isdigit c"
    using dec_octet_starts_with_digit [OF assms(1)] by blast
  have v: "dec_value p \<le> 255"
    using assms(1) by (simp add: is_dec_octet_def)
  have "inet_aton_loop parts (c # cs) = inet_aton_loop (parts @ [dec_value p]) rest"
    using c assms(2) v strtoul_dec_octet [OF assms(1) st]
    by (subst inet_aton_loop.simps) (simp add: Let_def)
  with c(1) show ?thesis by simp
qed

lemma inet_aton_loop_last:
  assumes "is_dec_octet p" and "length parts = 3"
  shows "inet_aton_loop parts p = Some (word_of_nat (pack 24 parts + dec_value p))"
proof -
  have st: "stops []"
    by (simp add: stops_def)
  obtain c cs where c: "p = c # cs" "isdigit c"
    using dec_octet_starts_with_digit [OF assms(1), of "[]"] by auto
  have v: "dec_value p \<le> 255"
    using assms(1) by (simp add: is_dec_octet_def)
  have s: "strtoul p = (dec_value p, [])"
    using strtoul_dec_octet [OF assms(1) st] by simp
  have "inet_aton_loop parts (c # cs) = Some (word_of_nat (pack 24 parts + dec_value p))"
    using c assms(2) v s
    by (subst inet_aton_loop.simps)
      (simp add: Let_def finish_def trailing_ok_def max_last_def)
  with c(1) show ?thesis by simp
qed

lemma dotted_quad_parts:
  assumes "is_dotted_quad s"
  shows "\<exists>a b c d. s = a @ CHR ''.'' # b @ CHR ''.'' # c @ CHR ''.'' # d
       \<and> is_dec_octet a \<and> is_dec_octet b \<and> is_dec_octet c \<and> is_dec_octet d"
proof -
  from assms obtain a b c d where sp: "split_dots s = [a, b, c, d]"
    and oct: "is_dec_octet a" "is_dec_octet b" "is_dec_octet c" "is_dec_octet d"
    by (auto simp: is_dotted_quad_def split: list.splits)
  from split_dots_four [OF sp] oct show ?thesis by blast
qed

lemma dec_octet_no_null:
  assumes "is_dec_octet p"
  shows "CHR 0x00 \<notin> set p"
proof
  assume "CHR 0x00 \<in> set p"
  moreover from assms have "list_all isdigit p"
    by (simp add: is_dec_octet_def)
  ultimately have "isdigit (CHR 0x00)"
    by (simp add: list_all_iff)
  then show False
    by (simp add: isdigit_def)
qed

text \<open>Every dotted quad is accepted by \<open>inet_aton\<close>.\<close>

lemma dotted_quad_accepted:
  assumes "is_dotted_quad s"
  shows "\<exists>packed. socket_inet_aton s = Inr packed"
proof -
  from dotted_quad_parts [OF assms] obtain a b c d where
    s: "s = a @ CHR ''.'' # b @ CHR ''.'' # c @ CHR ''.'' # d"
    and oct: "is_dec_octet a" "is_dec_octet b" "is_dec_octet c" "is_dec_octet d"
    by blast
  have n: "CHR 0x00 \<notin> set s"
    using s oct [THEN dec_octet_no_null] by simp
  have "inet_aton_loop [] s
      = Some (word_of_nat (pack 24 [dec_value a, dec_value b, dec_value c] + dec_value d))"
    using oct
    by (simp add: s inet_aton_loop_step inet_aton_loop_last del: inet_aton_loop.simps)
  with n show ?thesis
    by (simp add: socket_inet_aton_def)
qed

text \<open>
  The strict form matters: \<open>inet_aton\<close> reads an octet with a leading zero as octal,
  so \<open>010.8.8.8\<close> is the address 8.8.8.8 and \<open>08.8.8.8\<close> is refused.
\<close>

lemma leading_zero_read_as_octal:
  "socket_inet_aton ''010.8.8.8'' = Inr 0x08080808"
  "socket_inet_aton ''08.8.8.8'' =
     Inl (Raised OSError ''illegal IP address string passed to inet_aton'')"
  by (simp_all add: inet_aton_eval)

lemma dotted_quad_nonempty:
  assumes "is_dotted_quad s"
  shows "s \<noteq> []"
  using assms by (auto simp: is_dotted_quad_def)

text \<open>
  C3. For every dotted quad \<open>s\<close>, \<open>get_ip_from_input\<close> returns \<open>s\<close> itself with the
  flag \<open>False\<close>, and the caller's test \<open>if ip_address:\<close> passes. The only
  collaborator call is \<open>inet_aton(s)\<close>: no name is resolved, whatever the name
  service is, and nothing looks at the range the address lies in.
\<close>

theorem dotted_quad_returned_unchanged:
  assumes "is_dotted_quad s"
  shows "get_ip_from_input (resolver_world dns) s =
           \<lparr>trace = [Call_inet_aton s], returned = Inr (Some s, Some False)\<rparr>
       \<and> resolution_result (Some s, Some False) =
           \<lparr>address = Some s, sourceWasHostname = Some False, valid = True\<rparr>"
proof -
  from dotted_quad_accepted [OF assms] obtain packed where
    "inet_aton (resolver_world dns) s = Inr packed"
    by auto
  from get_ip_parsed [OF this] dotted_quad_nonempty [OF assms] show ?thesis
    by (simp add: resolution_result_def)
qed

lemma is_dotted_quad_192_168_1_1: "is_dotted_quad ''192.168.1.1''"
  by (simp add: is_dotted_quad_def is_dec_octet_def isdigit_def dec_value_def)

theorem dotted_quad_returned_unchanged_witness:
  "is_dotted_quad ''192.168.1.1''
   \<and> get_ip_from_input (resolver_world example_dns) ''192.168.1.1'' =
       \<lparr>trace = [Call_inet_aton ''192.168.1.1''],
        returned = Inr (Some ''192.168.1.1'', Some False)\<rparr>
   \<and> resolution_result (Some ''192.168.1.1'', Some False) =
       \<lparr>address = Some ''192.168.1.1'', sourceWasHostname = Some False, valid = True\<rparr>"
  using dotted_quad_returned_unchanged [OF is_dotted_quad_192_168_1_1, of example_dns]
    is_dotted_quad_192_168_1_1
  by simp

end
